theory Spec2Isabelle
  imports Main
begin

section \<open>Data model\<close>

text \<open>
  Identifiers of graph entities (\<^verbatim>\<open>dagnode.id\<close>) are strings, as node names are:
  \<^verbatim>\<open>getNode\<close> looks one key up as either. The identity of a widget object is a
  natural number. A \<^verbatim>\<open>QPointF\<close> is only stored and copied, never computed with.
\<close>

type_synonym ident = string

type_synonym ref = nat

type_synonym QPointF = "int \<times> int"

text \<open>
  A connection widget (terminal). \<^verbatim>\<open>core/nodes.py\<close> gives it (class
  \<^verbatim>\<open>ConnectionBase\<close>) a name, the two direction flags, both \<^verbatim>\<open>False\<close> in
  \<^verbatim>\<open>ConnectionNode.__init__\<close>, and the list \<^verbatim>\<open>connectedLine\<close>;
  \<^verbatim>\<open>center()\<close> is the centre of its scene rectangle. \<^verbatim>\<open>ui/graphics.py\<close> reads
  from it the id of the owning node (\<^verbatim>\<open>dagnode.id\<close>), the optional attribute
  \<^verbatim>\<open>is_connectable\<close> (\<open>None\<close> when \<^verbatim>\<open>hasattr\<close> is false) and the values of the
  dictionary \<^verbatim>\<open>connections\<close>, the attached edges, here by id.
\<close>

record Connection =
  dagnode_id :: ident
  conn_name :: string
  isInputConnection :: bool
  isOutputConnection :: bool
  is_connectable :: "bool option"
  connections :: "ident list"
  connectedLine :: "ref list"
  center :: QPointF

text \<open>
  \<^verbatim>\<open>LineClass\<close>: of its attributes only the two endpoints matter here (colour, pen,
  arrow head and the points cached for painting are left out).
\<close>

record LineClass =
  myStartItem :: ref
  myEndItem :: ref

text \<open>The provisional \<^verbatim>\<open>QGraphicsLineItem\<close> of a drawing session: its identity and its line.\<close>

record QGraphicsLineItem =
  lid :: ref
  p1 :: QPointF
  p2 :: QPointF

text \<open>What a scene holds and what a hit test returns.\<close>

datatype item =
    LineItem ref
  | ConnectionW ref
  | NodeW ident
  | EdgeW ident

datatype MouseButton = LeftButton | RightButton | MidButton

record QGraphicsSceneMouseEvent =
  button :: MouseButton
  scenePos :: QPointF

text \<open>
  An object of the graph (\<^verbatim>\<open>core.DagNode\<close>, \<^verbatim>\<open>core.DagEdge\<close>, or anything else the
  graph may hold): its id and name, and for an edge the ids of the two nodes and the
  names of the two terminals (\<^verbatim>\<open>src_id\<close>, \<^verbatim>\<open>dest_id\<close>, \<^verbatim>\<open>src_attr\<close>,
  \<^verbatim>\<open>dest_attr\<close>).
\<close>

datatype dag =
    DagNode ident string
  | DagEdge ident string ident ident string string
  | DagOther ident string

text \<open>
  A widget registered in \<^verbatim>\<open>scenenodes\<close>: \<^verbatim>\<open>node_widgets.Node(dag)\<close>, or
  \<^verbatim>\<open>node_widgets.Edge(dag, src_conn_widget, dest_conn_widget)\<close>, where a connection
  widget that was not found is \<open>None\<close>.
\<close>

datatype scene_widget =
    Node dag
  | Edge dag "ref option" "ref option"

text \<open>
  What the code prints or logs, in the order of the source: wrong type, invalid
  connection order, same node connection, not connectable (with the name of the
  destination), forcing edge removal and edge removal failed (with the edge).
\<close>

datatype message =
    ErrWrongType
  | ErrInvalidOrder
  | ErrSameNode
  | WarnNotConnectable string
  | WarnForcingRemoval ident
  | WarnRemovalFailed ident

text \<open>
  The exceptions the code can raise here, and \<open>DanglingReference\<close>, the error the
  specification names for an edge whose endpoint widget is missing.
\<close>

datatype error = AttributeError | ValueError | GraphException ident | DanglingReference

text \<open>
  The state of a \<^verbatim>\<open>GraphicsScene\<close>: the temporary line (\<^verbatim>\<open>self.line\<close>), the items of
  the Qt scene, the registry \<^verbatim>\<open>scenenodes\<close> (a dictionary, here in insertion
  order), the heap of connection widgets, the endpoints of each edge widget by the
  id of its edge (\<^verbatim>\<open>node_widgets.Edge\<close> is not among the sources; its two ends and
  its \<^verbatim>\<open>getLine\<close> are those of \<^verbatim>\<open>LineClass\<close>), the dictionary
  \<^verbatim>\<open>graph.dagnodes\<close>, a counter for the identity of new objects, and what was
  printed or logged.
\<close>

record GraphicsScene =
  line :: "QGraphicsLineItem option"
  scene_items :: "item list"
  scenenodes :: "(ident \<times> scene_widget) list"
  widgets :: "ref \<Rightarrow> Connection"
  edge_widgets :: "ident \<Rightarrow> LineClass"
  dagnodes :: "ident \<rightharpoonup> dag"
  fresh :: nat
  messages :: "message list"

section \<open>core/nodes.py: LineClass\<close>


text \<open>\<^verbatim>\<open>LineClass.getLine\<close>: from the centre of the start item to the centre of the end item.\<close>

definition getLine :: "(ref \<Rightarrow> Connection) \<Rightarrow> LineClass \<Rightarrow> QPointF \<times> QPointF" where
  "getLine w l = (center (w (myStartItem l)), center (w (myEndItem l)))"

definition append_line :: "ref \<Rightarrow> ref \<Rightarrow> (ref \<Rightarrow> Connection) \<Rightarrow> (ref \<Rightarrow> Connection)" where
  "append_line self r w = w(r := (w r)\<lparr>connectedLine := connectedLine (w r) @ [self]\<rparr>)"

definition remove_line :: "ref \<Rightarrow> ref \<Rightarrow> (ref \<Rightarrow> Connection) \<Rightarrow> (ref \<Rightarrow> Connection)" where
  "remove_line self r w = w(r := (w r)\<lparr>connectedLine := remove1 self (connectedLine (w r))\<rparr>)"

text \<open>
  \<^verbatim>\<open>LineClass.updatePosition\<close>: after \<^verbatim>\<open>setLine\<close> (geometry only) the line is appended
  to the list of the start item, then to the list of the end item.
\<close>

definition updatePosition :: "ref \<Rightarrow> LineClass \<Rightarrow> GraphicsScene \<Rightarrow> GraphicsScene" where
  "updatePosition self l s =
     s\<lparr>widgets := append_line self (myEndItem l) (append_line self (myStartItem l) (widgets s))\<rparr>"

definition removeItem :: "item \<Rightarrow> GraphicsScene \<Rightarrow> GraphicsScene" where
  "removeItem i s = s\<lparr>scene_items := removeAll i (scene_items s)\<rparr>"

definition addItem :: "item \<Rightarrow> GraphicsScene \<Rightarrow> GraphicsScene" where
  "addItem i s = s\<lparr>scene_items := scene_items s @ [i]\<rparr>"

text \<open>
  \<^verbatim>\<open>LineClass.deleteNode\<close>: the line leaves its scene (\<^verbatim>\<open>self.scene()\<close> is
  \<^verbatim>\<open>None\<close> for a line in no scene, and the call on it raises), then
  \<^verbatim>\<open>list.remove\<close> takes its first occurrence out of each endpoint's list and raises
  \<^verbatim>\<open>ValueError\<close> where there is none. The state is returned as the raise leaves it.
  (The guard \<^verbatim>\<open>if self:\<close> holds for a line object.)
\<close>

definition deleteNode :: "ref \<Rightarrow> LineClass \<Rightarrow> GraphicsScene \<Rightarrow> error option \<times> GraphicsScene" where
  "deleteNode self l s =
     (if LineItem self \<notin> set (scene_items s) then (Some AttributeError, s)
      else
        let s1 = removeItem (LineItem self) s in
        if self \<notin> set (connectedLine (widgets s1 (myStartItem l))) then (Some ValueError, s1)
        else
          let s2 = s1\<lparr>widgets := remove_line self (myStartItem l) (widgets s1)\<rparr> in
          if self \<notin> set (connectedLine (widgets s2 (myEndItem l))) then (Some ValueError, s2)
          else (None, s2\<lparr>widgets := remove_line self (myEndItem l) (widgets s2)\<rparr>))"

text \<open>How often a line is registered on a connection widget.\<close>

definition registered :: "ref \<Rightarrow> ref \<Rightarrow> GraphicsScene \<Rightarrow> nat" where
  "registered self r s = count_list (connectedLine (widgets s r)) self"

section \<open>The graph\<close>

text \<open>
  Modelled from the spec: the classes of the graph are not among the sources.
  Section 3: a terminal has a set of attached edges; here an edge id leaves the
  attached edges of a connection widget, or joins them.
\<close>

definition unregister :: "ident \<Rightarrow> ref \<Rightarrow> (ref \<Rightarrow> Connection) \<Rightarrow> (ref \<Rightarrow> Connection)" where
  "unregister e r w = w(r := (w r)\<lparr>connections := removeAll e (connections (w r))\<rparr>)"

definition register :: "ident \<Rightarrow> ref \<Rightarrow> (ref \<Rightarrow> Connection) \<Rightarrow> (ref \<Rightarrow> Connection)" where
  "register e r w = w(r := (w r)\<lparr>connections := connections (w r) @ [e]\<rparr>)"

text \<open>\<^verbatim>\<open>isinstance(dag, core.DagEdge)\<close> of what the graph holds under an id, if anything.\<close>

fun is_edge :: "dag option \<Rightarrow> bool" where
  "is_edge (Some (DagEdge i n a b c d)) = True"
| "is_edge _ = False"

text \<open>
  Modelled from the spec: \<^verbatim>\<open>Graph.removeEdge\<close> is not among the sources. Section 4.1:
  it fails when the id names no edge of the graph; otherwise it unregisters the edge
  from both endpoint terminals and removes it from the edge map. The result is true
  on success, which is how \<^verbatim>\<open>validateConnection\<close> reads it. (That function passes
  \<^verbatim>\<open>str(edge.dagnode.id)\<close>, the press handler the id itself: ids are strings here.)
\<close>

definition removeEdge :: "ident \<Rightarrow> GraphicsScene \<Rightarrow> bool \<times> GraphicsScene" where
  "removeEdge e s =
     (if is_edge (dagnodes s e)
      then (True, s\<lparr>dagnodes := (dagnodes s)(e := None),
                     widgets := unregister e (myEndItem (edge_widgets s e))
                                  (unregister e (myStartItem (edge_widgets s e)) (widgets s))\<rparr>)
      else (False, s))"

text \<open>
  Modelled from the spec: \<^verbatim>\<open>Graph.addEdge\<close> is not among the sources. Section 4.1:
  it fails with \<open>InvalidDirection\<close> if the source is not an output or the
  destination is not an input, with \<open>SameNode\<close> if both terminals belong to one
  node; on success it creates the edge under a fresh id, registers it on both
  terminals and inserts it into the edge map. The fresh id (a uuid in the source) is
  an argument. The caller, \<^verbatim>\<open>mouseReleaseEvent\<close>, passes the nodes of the two
  connection widgets and the widgets' names, here the two widgets.
\<close>

datatype graph_error = InvalidDirection | SameNode

definition addEdge :: "ident \<Rightarrow> ref \<Rightarrow> ref \<Rightarrow> GraphicsScene \<Rightarrow> (graph_error + ident) \<times> GraphicsScene" where
  "addEdge new_id src dest s =
     (if isOutputConnection (widgets s src) \<and> isInputConnection (widgets s dest)
      then
        if dagnode_id (widgets s src) = dagnode_id (widgets s dest) then (Inl SameNode, s)
        else (Inr new_id,
              s\<lparr>dagnodes := (dagnodes s)(new_id \<mapsto>
                     DagEdge new_id new_id (dagnode_id (widgets s src)) (dagnode_id (widgets s dest))
                       (conn_name (widgets s src)) (conn_name (widgets s dest))),
                 edge_widgets := (edge_widgets s)(new_id := \<lparr>myStartItem = src, myEndItem = dest\<rparr>),
                 widgets := register new_id dest (register new_id src (widgets s))\<rparr>)
      else (Inl InvalidDirection, s))"

text \<open>
  Modelled from the spec: \<^verbatim>\<open>node_widgets.Edge.disconnect_terminal\<close> is not among the
  sources. Section 4.4 has the pressed terminal disconnected from its edge: the edge
  leaves the terminal's attached edges, and the call succeeds when it was attached.
\<close>

definition disconnect_terminal :: "ident \<Rightarrow> ref \<Rightarrow> GraphicsScene \<Rightarrow> bool \<times> GraphicsScene" where
  "disconnect_terminal e r s =
     (if e \<in> set (connections (widgets s r))
      then (True, s\<lparr>widgets := unregister e r (widgets s)\<rparr>)
      else (False, s))"

section \<open>ui/graphics.py: the connection session\<close>

text \<open>
  \<^verbatim>\<open>QGraphicsScene.items(pos)\<close> is Qt's hit test: the items at a position, topmost
  first. It is a parameter \<open>hit\<close> of the handlers; \<^verbatim>\<open>itemAt(pos)\<close> is its first
  item, if any. The handlers end by calling the handler of the base class, which
  passes the event on to the items and touches nothing of this state.
\<close>

definition itemAt :: "(QPointF \<Rightarrow> item list) \<Rightarrow> QPointF \<Rightarrow> item option" where
  "itemAt hit pos = (case hit pos of [] \<Rightarrow> None | x # xs \<Rightarrow> Some x)"

text \<open>\<^verbatim>\<open>isinstance(x, node_widgets.Connection)\<close>, with the widget when it holds.\<close>

fun the_connection :: "item \<Rightarrow> ref option" where
  "the_connection (ConnectionW r) = Some r"
| "the_connection _ = None"

definition emit :: "message \<Rightarrow> GraphicsScene \<Rightarrow> GraphicsScene" where
  "emit m s = s\<lparr>messages := messages s @ [m]\<rparr>"

text \<open>
  \<^verbatim>\<open>self.line = QtGui.QGraphicsLineItem(QtCore.QLineF(a, b)); self.addItem(self.line)\<close>:
  a new line object becomes the session's line and enters the scene.
\<close>

definition new_line :: "QPointF \<Rightarrow> QPointF \<Rightarrow> GraphicsScene \<Rightarrow> GraphicsScene" where
  "new_line a b s =
     addItem (LineItem (fresh s))
       (s\<lparr>line := Some \<lparr>lid = fresh s, p1 = a, p2 = b\<rparr>, fresh := Suc (fresh s)\<rparr>)"

text \<open>The branch of \<^verbatim>\<open>mousePressEvent\<close> for an output connection.\<close>

definition press_output :: "QGraphicsSceneMouseEvent \<Rightarrow> ref \<Rightarrow> GraphicsScene \<Rightarrow> GraphicsScene" where
  "press_output ev r s =
     (if isOutputConnection (widgets s r) then new_line (scenePos ev) (scenePos ev) s else s)"

text \<open>
  The branch of \<^verbatim>\<open>mousePressEvent\<close> for an input connection: with exactly one edge
  attached, and when \<^verbatim>\<open>disconnect_terminal\<close> succeeds, the edge is removed from the
  graph (the result of \<^verbatim>\<open>removeEdge\<close> is not read) and the new line starts at
  \<^verbatim>\<open>p1\<close> of the edge's line.
\<close>

definition press_input :: "QGraphicsSceneMouseEvent \<Rightarrow> ref \<Rightarrow> GraphicsScene \<Rightarrow> GraphicsScene" where
  "press_input ev r s =
     (if isInputConnection (widgets s r) then
        (case connections (widgets s r) of
           [conn_edge] \<Rightarrow>
             (case disconnect_terminal conn_edge r s of
                (ok, s1) \<Rightarrow>
                  if ok then
                    let s2 = snd (removeEdge conn_edge s1);
                        edge_line = getLine (widgets s2) (edge_widgets s2 conn_edge)
                    in new_line (fst edge_line) (scenePos ev) s2
                  else s1)
         | _ \<Rightarrow> s)
      else s)"

definition mousePressEvent ::
  "(QPointF \<Rightarrow> item list) \<Rightarrow> QGraphicsSceneMouseEvent \<Rightarrow> GraphicsScene \<Rightarrow> GraphicsScene" where
  "mousePressEvent hit ev s =
     (if button ev = LeftButton then
        (case itemAt hit (scenePos ev) of
           Some (ConnectionW r) \<Rightarrow> press_input ev r (press_output ev r s)
         | _ \<Rightarrow> s)
      else s)"

definition mouseMoveEvent :: "QGraphicsSceneMouseEvent \<Rightarrow> GraphicsScene \<Rightarrow> GraphicsScene" where
  "mouseMoveEvent ev s =
     (case line s of
        None \<Rightarrow> s
      | Some l \<Rightarrow> s\<lparr>line := Some (l\<lparr>p2 := scenePos ev\<rparr>)\<rparr>)"

text \<open>
  The loop of \<^verbatim>\<open>validateConnection\<close> over the edges attached to the destination,
  a list taken before the first removal: each removal is announced, and one that
  fails is logged and the loop goes on. The messages name the edge by its id.
\<close>

fun force_removal :: "ident list \<Rightarrow> GraphicsScene \<Rightarrow> GraphicsScene" where
  "force_removal [] s = s"
| "force_removal (e # es) s =
     (case removeEdge e (emit (WarnForcingRemoval e) s) of
        (ok, s1) \<Rightarrow> force_removal es (if ok then s1 else emit (WarnRemovalFailed e) s1))"

text \<open>
  \<^verbatim>\<open>validateConnection(src, dest, force)\<close>: the verdict and the state. Every rule
  stands under \<^verbatim>\<open>if self.line:\<close>; without a line the call returns \<^verbatim>\<open>True\<close>. The
  rules in order: both arguments are connection widgets; the source is no input and
  the destination no output; the two nodes differ (\<^verbatim>\<open>str\<close> of the ids compared); a
  destination that has the attribute \<^verbatim>\<open>is_connectable\<close>, false, is refused without
  \<open>force\<close> and has its edges removed with it. The warning names the destination
  (\<^verbatim>\<open>connection_name\<close>, here the widget's name).
\<close>

definition validateConnection :: "item \<Rightarrow> item \<Rightarrow> bool \<Rightarrow> GraphicsScene \<Rightarrow> bool \<times> GraphicsScene" where
  "validateConnection src dest force s =
     (case line s of
        None \<Rightarrow> (True, s)
      | Some l \<Rightarrow>
          (case (the_connection src, the_connection dest) of
             (Some a, Some b) \<Rightarrow>
               if isInputConnection (widgets s a) \<or> isOutputConnection (widgets s b)
               then (False, emit ErrInvalidOrder s)
               else if dagnode_id (widgets s a) = dagnode_id (widgets s b)
               then (False, emit ErrSameNode s)
               else
                 (case is_connectable (widgets s b) of
                    Some False \<Rightarrow>
                      if force then (True, force_removal (connections (widgets s b)) s)
                      else (False, emit (WarnNotConnectable (conn_name (widgets s b))) s)
                  | _ \<Rightarrow> (True, s))
           | _ \<Rightarrow> (False, emit ErrWrongType s)))"

text \<open>\<^verbatim>\<open>if len(xs) and xs[0] == self.line: xs.pop(0)\<close>\<close>

definition pop_line :: "QGraphicsLineItem \<Rightarrow> item list \<Rightarrow> item list" where
  "pop_line l xs =
     (case xs of
        [] \<Rightarrow> []
      | x # rest \<Rightarrow> if x = LineItem (lid l) then rest else xs)"

text \<open>
  \<^verbatim>\<open>mouseReleaseEvent\<close>. The \<^verbatim>\<open>return\<close> taken when one of the two topmost items is
  no connection widget leaves the handler before \<^verbatim>\<open>self.line = None\<close>. The id of a
  new edge is the argument \<open>new_id\<close>; the result of \<^verbatim>\<open>addEdge\<close> is not read.
\<close>

definition mouseReleaseEvent ::
  "(QPointF \<Rightarrow> item list) \<Rightarrow> ident \<Rightarrow> GraphicsScene \<Rightarrow> GraphicsScene" where
  "mouseReleaseEvent hit new_id s =
     (case line s of
        None \<Rightarrow> s\<lparr>line := None\<rparr>
      | Some l \<Rightarrow>
          let source_items = pop_line l (hit (p1 l));
              dest_items = pop_line l (hit (p2 l));
              s1 = removeItem (LineItem (lid l)) s
          in
          (case (source_items, dest_items) of
             (source_conn # xs, dest_conn # ys) \<Rightarrow>
               (case (the_connection source_conn, the_connection dest_conn) of
                  (Some a, Some b) \<Rightarrow>
                    (case validateConnection source_conn dest_conn True s1 of
                       (ok, s2) \<Rightarrow>
                         (if ok then snd (addEdge new_id a b s2) else s2)\<lparr>line := None\<rparr>)
                | _ \<Rightarrow> s1)
           | _ \<Rightarrow> s1\<lparr>line := None\<rparr>))"

section \<open>ui/graphics.py: the registry of widgets\<close>

fun dag_id :: "dag \<Rightarrow> ident" where
  "dag_id (DagNode i n) = i"
| "dag_id (DagEdge i n a b c d) = i"
| "dag_id (DagOther i n) = i"

fun dag_name :: "dag \<Rightarrow> string" where
  "dag_name (DagNode i n) = n"
| "dag_name (DagEdge i n a b c d) = n"
| "dag_name (DagOther i n) = n"

fun dagnode :: "scene_widget \<Rightarrow> dag" where
  "dagnode (Node d) = d"
| "dagnode (Edge d a b) = d"

text \<open>
  \<^verbatim>\<open>getNode(name)\<close>: the widget registered under the key, else the first registered
  widget whose dag node has that name, else \<^verbatim>\<open>None\<close> (the function ends without a
  \<^verbatim>\<open>return\<close>).
\<close>

definition getNode :: "string \<Rightarrow> GraphicsScene \<Rightarrow> scene_widget option" where
  "getNode name s =
     (case map_of (scenenodes s) name of
        Some w \<Rightarrow> Some w
      | None \<Rightarrow> find (\<lambda>w. dag_name (dagnode w) = name) (map snd (scenenodes s)))"

text \<open>\<^verbatim>\<open>self.scenenodes[k] = w\<close>\<close>

fun set_item :: "ident \<Rightarrow> scene_widget \<Rightarrow> (ident \<times> scene_widget) list \<Rightarrow> (ident \<times> scene_widget) list" where
  "set_item k w [] = [(k, w)]"
| "set_item k w ((k', w') # xs) = (if k' = k then (k, w) # xs else (k', w') # set_item k w xs)"

text \<open>
  The methods of \<^verbatim>\<open>node_widgets\<close> that \<^verbatim>\<open>addNodes\<close> calls are not among the sources
  and are parameters: \<^verbatim>\<open>getOutputConnection\<close> and \<^verbatim>\<open>getInputConnection\<close> of a widget
  (\<open>None\<close> when it finds nothing) and \<^verbatim>\<open>connect_terminal\<close> of an edge widget.
\<close>

record node_widgets =
  getOutputConnection :: "scene_widget \<Rightarrow> string \<Rightarrow> ref option"
  getInputConnection :: "scene_widget \<Rightarrow> string \<Rightarrow> ref option"
  connect_terminal :: "scene_widget \<Rightarrow> ref option \<Rightarrow> GraphicsScene \<Rightarrow> bool \<times> GraphicsScene"

text \<open>
  The body of the loop of \<^verbatim>\<open>addNodes\<close> for one id: the widgets it adds, or the
  exception it raises, and the state. A method called on the \<^verbatim>\<open>None\<close> that
  \<^verbatim>\<open>getNode\<close> returned raises \<^verbatim>\<open>AttributeError\<close>; both \<^verbatim>\<open>getNode\<close> calls come
  before it.
\<close>

definition add_edge_widget ::
  "node_widgets \<Rightarrow> dag \<Rightarrow> ident \<Rightarrow> ident \<Rightarrow> string \<Rightarrow> string \<Rightarrow> GraphicsScene
     \<Rightarrow> (error + scene_widget list) \<times> GraphicsScene" where
  "add_edge_widget nw d src_id dest_id src_attr dest_attr s =
     (case getNode src_id s of
        None \<Rightarrow> (Inl AttributeError, s)
      | Some src_widget \<Rightarrow>
          (case getNode dest_id s of
             None \<Rightarrow> (Inl AttributeError, s)
           | Some dest_widget \<Rightarrow>
               let src_conn_widget = getOutputConnection nw src_widget src_attr;
                   dest_conn_widget = getInputConnection nw dest_widget dest_attr;
                   widget = Edge d src_conn_widget dest_conn_widget
               in
               (case connect_terminal nw widget src_conn_widget s of
                  (ok1, s1) \<Rightarrow>
                    if ok1 then
                      (case connect_terminal nw widget dest_conn_widget s1 of
                         (ok2, s2) \<Rightarrow>
                           if ok2
                           then (Inr [widget],
                                 addItem (EdgeW (dag_id d)) (s2\<lparr>scenenodes := set_item (dag_id d) widget (scenenodes s2)\<rparr>))
                           else (Inr [], s2))
                    else (Inr [], s1))))"

definition add_one :: "node_widgets \<Rightarrow> ident \<Rightarrow> GraphicsScene \<Rightarrow> (error + scene_widget list) \<times> GraphicsScene" where
  "add_one nw i s =
     (case dagnodes s i of
        None \<Rightarrow> (Inr [], s)
      | Some (DagNode di n) \<Rightarrow>
          if i \<in> fst ` set (scenenodes s) then (Inr [], s)
          else (Inr [Node (DagNode di n)],
                addItem (NodeW di) (s\<lparr>scenenodes := set_item di (Node (DagNode di n)) (scenenodes s)\<rparr>))
      | Some (DagEdge di n src_id dest_id src_attr dest_attr) \<Rightarrow>
          if i \<in> fst ` set (scenenodes s) then (Inr [], s)
          else add_edge_widget nw (DagEdge di n src_id dest_id src_attr dest_attr) src_id dest_id src_attr dest_attr s
      | Some (DagOther di n) \<Rightarrow> (Inl (GraphException i), s))"

text \<open>
  \<^verbatim>\<open>addNodes(dagids)\<close>: the loop stops at the first exception, and the state is as
  the exception leaves it.
\<close>

fun addNodes_loop ::
  "node_widgets \<Rightarrow> ident list \<Rightarrow> scene_widget list \<Rightarrow> GraphicsScene \<Rightarrow> (error + scene_widget list) \<times> GraphicsScene" where
  "addNodes_loop nw [] acc s = (Inr acc, s)"
| "addNodes_loop nw (i # ids) acc s =
     (case add_one nw i s of
        (Inl e, s1) \<Rightarrow> (Inl e, s1)
      | (Inr ws, s1) \<Rightarrow> addNodes_loop nw ids (acc @ ws) s1)"

definition addNodes :: "node_widgets \<Rightarrow> ident list \<Rightarrow> GraphicsScene \<Rightarrow> (error + scene_widget list) \<times> GraphicsScene" where
  "addNodes nw dagids s = addNodes_loop nw dagids [] s"

section \<open>Notions used in the statements\<close>

text \<open>
  Two connection widgets agree in what decides a verdict of \<^verbatim>\<open>validateConnection\<close>:
  the direction flags, the node and \<^verbatim>\<open>is_connectable\<close>.
\<close>

definition same_terminal :: "Connection \<Rightarrow> Connection \<Rightarrow> bool" where
  "same_terminal c c' =
     (isInputConnection c = isInputConnection c' \<and> isOutputConnection c = isOutputConnection c' \<and>
      dagnode_id c = dagnode_id c' \<and> is_connectable c = is_connectable c')"


text \<open>The graph holds an edge under the id.\<close>

definition in_graph :: "ident \<Rightarrow> GraphicsScene \<Rightarrow> bool" where
  "in_graph e s = is_edge (dagnodes s e)"

text \<open>The topmost item at a position, the session's line apart.\<close>

definition topmost :: "(QPointF \<Rightarrow> item list) \<Rightarrow> QGraphicsLineItem \<Rightarrow> QPointF \<Rightarrow> item option" where
  "topmost hit l pos = (case pop_line l (hit pos) of [] \<Rightarrow> None | x # xs \<Rightarrow> Some x)"

text \<open>No connection widget is the topmost item at a position: empty space, or another item.\<close>

definition no_terminal :: "(QPointF \<Rightarrow> item list) \<Rightarrow> QGraphicsLineItem \<Rightarrow> QPointF \<Rightarrow> bool" where
  "no_terminal hit l pos = (case topmost hit l pos of None \<Rightarrow> True | Some x \<Rightarrow> the_connection x = None)"

text \<open>
  The release takes the early \<^verbatim>\<open>return\<close>: there is an item at both ends of the line
  and one of the two topmost items is no connection widget.
\<close>

definition returns_early :: "(QPointF \<Rightarrow> item list) \<Rightarrow> QGraphicsLineItem \<Rightarrow> bool" where
  "returns_early hit l =
     (case (topmost hit l (p1 l), topmost hit l (p2 l)) of
        (Some x, Some y) \<Rightarrow> the_connection x = None \<or> the_connection y = None
      | _ \<Rightarrow> False)"




section \<open>Example scenes\<close>

text \<open>
  The scenes the closed theorems below are evaluated on. Widget 1 is the output of
  node A, widget 2 the input of node B, joined by edge e1; widget 3 is the input of
  node C, not connectable, fed by edge e2 from widget 4, the output of node D;
  widget 5 is the output of node E, with no edge; every other widget is an input
  of a node N, with no edge.
\<close>

definition terminal :: "ident \<Rightarrow> string \<Rightarrow> bool \<Rightarrow> bool \<Rightarrow> bool option \<Rightarrow> ident list \<Rightarrow> QPointF \<Rightarrow> Connection" where
  "terminal n a inp outp c es pos =
     \<lparr>dagnode_id = n, conn_name = a, isInputConnection = inp, isOutputConnection = outp,
      is_connectable = c, connections = es, connectedLine = [], center = pos\<rparr>"

definition ex_widgets :: "ref \<Rightarrow> Connection" where
  "ex_widgets r =
     (if r = 1 then terminal ''A'' ''out'' False True (Some True) [''e1''] (10, 0)
      else if r = 2 then terminal ''B'' ''in'' True False (Some True) [''e1''] (20, 0)
      else if r = 3 then terminal ''C'' ''in'' True False (Some False) [''e2''] (30, 0)
      else if r = 4 then terminal ''D'' ''out'' False True (Some True) [''e2''] (40, 0)
      else if r = 5 then terminal ''E'' ''out'' False True (Some True) [] (50, 0)
      else terminal ''N'' ''in'' True False (Some True) [] (60, 0))"

definition ex_edge_widgets :: "ident \<Rightarrow> LineClass" where
  "ex_edge_widgets e =
     (if e = ''e2'' then \<lparr>myStartItem = 4, myEndItem = 3\<rparr> else \<lparr>myStartItem = 1, myEndItem = 2\<rparr>)"

definition ex_dagnodes :: "ident \<rightharpoonup> dag" where
  "ex_dagnodes =
     [''A'' \<mapsto> DagNode ''A'' ''nodeA'', ''B'' \<mapsto> DagNode ''B'' ''nodeB'',
      ''C'' \<mapsto> DagNode ''C'' ''nodeC'', ''D'' \<mapsto> DagNode ''D'' ''nodeD'',
      ''E'' \<mapsto> DagNode ''E'' ''nodeE'',
      ''e1'' \<mapsto> DagEdge ''e1'' ''edge1'' ''A'' ''B'' ''out'' ''in'',
      ''e2'' \<mapsto> DagEdge ''e2'' ''edge2'' ''D'' ''C'' ''out'' ''in'']"

text \<open>No line is being drawn; every node and edge of the graph has its widget.\<close>

definition ex_idle :: GraphicsScene where
  "ex_idle =
     \<lparr>line = None,
      scene_items = [NodeW ''A'', NodeW ''B'', NodeW ''C'', NodeW ''D'', NodeW ''E'', EdgeW ''e1'', EdgeW ''e2''],
      scenenodes =
        [(''A'', Node (DagNode ''A'' ''nodeA'')), (''B'', Node (DagNode ''B'' ''nodeB'')),
         (''C'', Node (DagNode ''C'' ''nodeC'')), (''D'', Node (DagNode ''D'' ''nodeD'')),
         (''E'', Node (DagNode ''E'' ''nodeE'')),
         (''e1'', Edge (DagEdge ''e1'' ''edge1'' ''A'' ''B'' ''out'' ''in'') (Some 1) (Some 2)),
         (''e2'', Edge (DagEdge ''e2'' ''edge2'' ''D'' ''C'' ''out'' ''in'') (Some 4) (Some 3))],
      widgets = ex_widgets, edge_widgets = ex_edge_widgets, dagnodes = ex_dagnodes,
      fresh = 100, messages = []\<rparr>"

text \<open>A line is being drawn from widget 5, the output of node E, to the point (70, 0).\<close>

definition ex_drawing :: GraphicsScene where
  "ex_drawing = ex_idle\<lparr>line := Some \<lparr>lid = 99, p1 = (50, 0), p2 = (70, 0)\<rparr>,
                         scene_items := scene_items ex_idle @ [LineItem 99]\<rparr>"

text \<open>
  A scene that is being filled: the graph holds the nodes A, B and E and the edge e3
  from the output of E to the input of B; the widgets of A and B are registered, the
  widget of E is not yet.
\<close>

definition ex_loading :: GraphicsScene where
  "ex_loading =
     \<lparr>line = None, scene_items = [NodeW ''A'', NodeW ''B''],
      scenenodes = [(''A'', Node (DagNode ''A'' ''nodeA'')), (''B'', Node (DagNode ''B'' ''nodeB''))],
      widgets = ex_widgets, edge_widgets = ex_edge_widgets,
      dagnodes = [''A'' \<mapsto> DagNode ''A'' ''nodeA'', ''B'' \<mapsto> DagNode ''B'' ''nodeB'',
                  ''E'' \<mapsto> DagNode ''E'' ''nodeE'',
                  ''e3'' \<mapsto> DagEdge ''e3'' ''edge3'' ''E'' ''B'' ''out'' ''in''],
      fresh = 100, messages = []\<rparr>"

text \<open>
  Hit tests: the connection widgets lie at their centres, on their nodes; at (70, 0)
  there is only the body of node B, and elsewhere nothing. While the line of
  \<open>ex_drawing\<close> is in the scene, it is the topmost item at its two ends.
\<close>

definition ex_hit :: "QPointF \<Rightarrow> item list" where
  "ex_hit pos =
     (if pos = (10, 0) then [ConnectionW 1, NodeW ''A'']
      else if pos = (20, 0) then [ConnectionW 2, NodeW ''B'']
      else if pos = (30, 0) then [ConnectionW 3]
      else if pos = (50, 0) then [ConnectionW 5]
      else if pos = (70, 0) then [NodeW ''B'']
      else [])"

definition ex_hit_line :: "ref \<Rightarrow> QPointF \<Rightarrow> QPointF \<Rightarrow> QPointF \<Rightarrow> item list" where
  "ex_hit_line k a b pos = (if pos = a \<or> pos = b then LineItem k # ex_hit pos else ex_hit pos)"




text \<open>
  Stand-ins for the methods of \<^verbatim>\<open>node_widgets\<close>: a node widget finds its terminal by
  name, and an edge widget connects to any terminal that was found.
\<close>

definition ex_getOutputConnection :: "scene_widget \<Rightarrow> string \<Rightarrow> ref option" where
  "ex_getOutputConnection w a =
     (if dag_id (dagnode w) = ''A'' \<and> a = ''out'' then Some 1
      else if dag_id (dagnode w) = ''D'' \<and> a = ''out'' then Some 4
      else if dag_id (dagnode w) = ''E'' \<and> a = ''out'' then Some 5
      else None)"

definition ex_getInputConnection :: "scene_widget \<Rightarrow> string \<Rightarrow> ref option" where
  "ex_getInputConnection w a =
     (if dag_id (dagnode w) = ''B'' \<and> a = ''in'' then Some 2
      else if dag_id (dagnode w) = ''C'' \<and> a = ''in'' then Some 3
      else None)"

definition ex_connect_terminal :: "scene_widget \<Rightarrow> ref option \<Rightarrow> GraphicsScene \<Rightarrow> bool \<times> GraphicsScene" where
  "ex_connect_terminal w c s = (c \<noteq> None, s)"

definition ex_node_widgets :: node_widgets where
  "ex_node_widgets =
     \<lparr>getOutputConnection = ex_getOutputConnection, getInputConnection = ex_getInputConnection,
      connect_terminal = ex_connect_terminal\<rparr>"

section \<open>Properties of LineClass\<close>

lemma registered_updatePosition:
  "myStartItem l \<noteq> myEndItem l \<Longrightarrow>
   registered self (myStartItem l) (updatePosition self l s) = Suc (registered self (myStartItem l) s) \<and>
   registered self (myEndItem l) (updatePosition self l s) = Suc (registered self (myEndItem l) s)"
  by (simp add: registered_def updatePosition_def append_line_def)

lemma scene_items_updatePosition: "scene_items (updatePosition self l s) = scene_items s"
  by (simp add: updatePosition_def)

lemma scene_items_funpow_updatePosition:
  "scene_items ((updatePosition self l ^^ n) s) = scene_items s"
  by (induction n) (simp_all add: scene_items_updatePosition)

lemma registered_funpow_updatePosition:
  "myStartItem l \<noteq> myEndItem l \<Longrightarrow>
   registered self (myStartItem l) ((updatePosition self l ^^ n) s) = registered self (myStartItem l) s + n \<and>
   registered self (myEndItem l) ((updatePosition self l ^^ n) s) = registered self (myEndItem l) s + n"
  by (induction n) (simp_all add: registered_updatePosition)

lemma count_list_remove1:
  "x \<in> set xs \<Longrightarrow> count_list (remove1 x xs) x = count_list xs x - 1"
  by (induction xs) auto

lemma count_list_pos: "0 < count_list xs x \<Longrightarrow> x \<in> set xs"
  by (induction xs) (auto split: if_splits)

lemma deleteNode_registered:
  assumes "myStartItem l \<noteq> myEndItem l"
    and "LineItem self \<in> set (scene_items s)"
    and "0 < registered self (myStartItem l) s"
    and "0 < registered self (myEndItem l) s"
  shows "fst (deleteNode self l s) = None \<and>
         registered self (myStartItem l) (snd (deleteNode self l s)) = registered self (myStartItem l) s - 1 \<and>
         registered self (myEndItem l) (snd (deleteNode self l s)) = registered self (myEndItem l) s - 1"
  using assms count_list_pos[of "connectedLine (widgets s (myStartItem l))" self]
    count_list_pos[of "connectedLine (widgets s (myEndItem l))" self]
  by (simp add: deleteNode_def registered_def removeItem_def remove_line_def Let_def count_list_remove1)

lemma registered_updatePosition_same:
  "myStartItem l = myEndItem l \<Longrightarrow>
   registered self (myStartItem l) (updatePosition self l s) = Suc (Suc (registered self (myStartItem l) s))"
  by (simp add: registered_def updatePosition_def append_line_def)

section \<open>Properties of the graph operations\<close>

lemma same_terminal_refl: "same_terminal c c"
  by (simp add: same_terminal_def)

lemma same_terminal_unregister: "same_terminal (unregister e r w x) (w x)"
  by (simp add: same_terminal_def unregister_def)

lemma same_terminal_trans: "same_terminal a b \<Longrightarrow> same_terminal b c \<Longrightarrow> same_terminal a c"
  by (simp add: same_terminal_def)

lemma emit_fields:
  "line (emit m s) = line s" "widgets (emit m s) = widgets s" "dagnodes (emit m s) = dagnodes s"
  "edge_widgets (emit m s) = edge_widgets s" "scene_items (emit m s) = scene_items s"
  "scenenodes (emit m s) = scenenodes s" "fresh (emit m s) = fresh s"
  by (simp_all add: emit_def)

lemma emit_messages_reset: "(emit m s)\<lparr>messages := ms\<rparr> = s\<lparr>messages := ms\<rparr>"
  by (simp add: emit_def)

lemma removeEdge_fields:
  "line (snd (removeEdge e s)) = line s"
  "edge_widgets (snd (removeEdge e s)) = edge_widgets s"
  "scene_items (snd (removeEdge e s)) = scene_items s"
  "scenenodes (snd (removeEdge e s)) = scenenodes s"
  "fresh (snd (removeEdge e s)) = fresh s"
  by (simp_all add: removeEdge_def)

lemma removeEdge_same_terminal: "same_terminal (widgets (snd (removeEdge e s)) r) (widgets s r)"
  by (simp add: removeEdge_def same_terminal_refl)
     (metis same_terminal_trans same_terminal_unregister)

lemma removeEdge_dagnodes:
  "dagnodes (snd (removeEdge e s)) e' = (if e' = e \<and> in_graph e s then None else dagnodes s e')"
  by (simp add: removeEdge_def in_graph_def)

lemma removeEdge_result: "fst (removeEdge e s) = in_graph e s"
  by (simp add: removeEdge_def in_graph_def)

lemma removeEdge_connections:
  "in_graph e s \<Longrightarrow>
   e \<notin> set (connections (widgets (snd (removeEdge e s)) (myStartItem (edge_widgets s e)))) \<and>
   e \<notin> set (connections (widgets (snd (removeEdge e s)) (myEndItem (edge_widgets s e))))"
  by (simp add: removeEdge_def in_graph_def unregister_def)

lemma force_removal_fields:
  "line (force_removal es s) = line s \<and> edge_widgets (force_removal es s) = edge_widgets s \<and>
   scene_items (force_removal es s) = scene_items s \<and> scenenodes (force_removal es s) = scenenodes s \<and>
   fresh (force_removal es s) = fresh s"
proof (induction es arbitrary: s)
  case Nil
  show ?case by simp
next
  case (Cons e es)
  obtain ok s1 where r: "removeEdge e (emit (WarnForcingRemoval e) s) = (ok, s1)"
    by (cases "removeEdge e (emit (WarnForcingRemoval e) s)")
  have s1: "line s1 = line s" "edge_widgets s1 = edge_widgets s" "scene_items s1 = scene_items s"
    "scenenodes s1 = scenenodes s" "fresh s1 = fresh s"
    using removeEdge_fields [of e "emit (WarnForcingRemoval e) s"] r by (simp_all add: emit_fields)
  show ?case
    using Cons.IH [of "if ok then s1 else emit (WarnRemovalFailed e) s1"] r s1
    by (simp add: emit_fields)
qed

lemma force_removal_same_terminal: "same_terminal (widgets (force_removal es s) r) (widgets s r)"
proof (induction es arbitrary: s)
  case Nil
  show ?case by (simp add: same_terminal_refl)
next
  case (Cons e es)
  obtain ok s1 where r: "removeEdge e (emit (WarnForcingRemoval e) s) = (ok, s1)"
    by (cases "removeEdge e (emit (WarnForcingRemoval e) s)")
  have s1: "same_terminal (widgets s1 r) (widgets s r)"
    using removeEdge_same_terminal [of e "emit (WarnForcingRemoval e) s" r] r by (simp add: emit_fields)
  have "same_terminal (widgets (if ok then s1 else emit (WarnRemovalFailed e) s1) r) (widgets s r)"
    using s1 by (simp add: emit_fields)
  with Cons.IH [of "if ok then s1 else emit (WarnRemovalFailed e) s1"] r
  show ?case by (simp split del: if_split) (metis same_terminal_trans)
qed

lemma force_removal_dagnodes:
  "dagnodes (force_removal es s) e' = (if e' \<in> set es \<and> in_graph e' s then None else dagnodes s e')"
proof (induction es arbitrary: s)
  case Nil
  show ?case by simp
next
  case (Cons e es)
  obtain ok s1 where r: "removeEdge e (emit (WarnForcingRemoval e) s) = (ok, s1)"
    by (cases "removeEdge e (emit (WarnForcingRemoval e) s)")
  have d: "dagnodes s1 x = (if x = e \<and> in_graph e s then None else dagnodes s x)" for x
    using removeEdge_dagnodes [of e "emit (WarnForcingRemoval e) s" x] r
    by (simp add: emit_fields in_graph_def)
  let ?s2 = "if ok then s1 else emit (WarnRemovalFailed e) s1"
  have d2: "dagnodes ?s2 x = (if x = e \<and> in_graph e s then None else dagnodes s x)" for x
    using d by (simp add: emit_fields)
  have "dagnodes (force_removal (e # es) s) e' = dagnodes (force_removal es ?s2) e'"
    using r by simp
  also have "\<dots> = (if e' \<in> set es \<and> in_graph e' ?s2 then None else dagnodes ?s2 e')"
    by (rule Cons.IH)
  also have "\<dots> = (if e' \<in> set (e # es) \<and> in_graph e' s then None else dagnodes s e')"
    using d2 [of e'] by (auto simp: in_graph_def)
  finally show ?case .
qed

lemma force_removal_not_in_graph: "e \<in> set es \<Longrightarrow> \<not> in_graph e (force_removal es s)"
  by (simp add: in_graph_def force_removal_dagnodes)

lemma force_removal_messages_mono: "set (messages s) \<subseteq> set (messages (force_removal es s))"
proof (induction es arbitrary: s)
  case Nil
  show ?case by simp
next
  case (Cons e es)
  obtain ok s1 where r: "removeEdge e (emit (WarnForcingRemoval e) s) = (ok, s1)"
    by (cases "removeEdge e (emit (WarnForcingRemoval e) s)")
  have "set (messages s) \<subseteq> set (messages s1)"
    using r by (auto simp: removeEdge_def emit_def split: if_splits)
  then have "set (messages s) \<subseteq> set (messages (if ok then s1 else emit (WarnRemovalFailed e) s1))"
    by (auto simp: emit_def)
  with Cons.IH [of "if ok then s1 else emit (WarnRemovalFailed e) s1"] r
  show ?case by (simp split del: if_split)
qed

lemma force_removal_failure_logged:
  "e \<in> set es \<Longrightarrow> \<not> in_graph e s \<Longrightarrow> WarnRemovalFailed e \<in> set (messages (force_removal es s))"
proof (induction es arbitrary: s)
  case Nil
  then show ?case by simp
next
  case (Cons x es)
  obtain ok s1 where r: "removeEdge x (emit (WarnForcingRemoval x) s) = (ok, s1)"
    by (cases "removeEdge x (emit (WarnForcingRemoval x) s)")
  let ?s2 = "if ok then s1 else emit (WarnRemovalFailed x) s1"
  have step: "force_removal (x # es) s = force_removal es ?s2"
    using r by simp
  show ?case
  proof (cases "e = x")
    case True
    have "\<not> ok"
      using removeEdge_result [of x "emit (WarnForcingRemoval x) s"] r Cons.prems(2) True
      by (simp add: in_graph_def emit_fields)
    then have "WarnRemovalFailed e \<in> set (messages ?s2)"
      using True by (simp add: emit_def)
    with force_removal_messages_mono [of ?s2 es] step show ?thesis
      by auto
  next
    case False
    with Cons.prems have mem: "e \<in> set es" by simp
    have "dagnodes s1 e = dagnodes s e"
      using removeEdge_dagnodes [of x "emit (WarnForcingRemoval x) s" e] r False
      by (simp add: emit_fields)
    then have "\<not> in_graph e ?s2"
      using Cons.prems(2) by (simp add: in_graph_def emit_fields)
    from Cons.IH [OF mem this] step show ?thesis by simp
  qed
qed

section \<open>Properties of the mouse handlers\<close>

lemma addEdge_fields:
  "line (snd (addEdge i a b s)) = line s" "scene_items (snd (addEdge i a b s)) = scene_items s"
  by (simp_all add: addEdge_def)

lemma validateConnection_scene_items:
  "scene_items (snd (validateConnection src dest force s)) = scene_items s"
  by (auto simp: validateConnection_def emit_fields force_removal_fields split: option.splits bool.splits)


lemma mouseReleaseEvent_line:
  "line s = Some l \<Longrightarrow>
   line (mouseReleaseEvent hit i s) = (if returns_early hit l then Some l else None)"
  by (auto simp: mouseReleaseEvent_def returns_early_def topmost_def removeItem_def Let_def
      split: list.splits option.splits prod.splits)

lemma mouseReleaseEvent_scene_items:
  "line s = Some l \<Longrightarrow>
   scene_items (mouseReleaseEvent hit i s) = removeAll (LineItem (lid l)) (scene_items s)"
  by (simp add: mouseReleaseEvent_def removeItem_def Let_def case_prod_beta addEdge_fields
      validateConnection_scene_items split: list.splits option.splits)

lemma mouseReleaseEvent_no_terminal:
  assumes "line s = Some l" and "no_terminal hit l (p1 l) \<or> no_terminal hit l (p2 l)"
  shows "dagnodes (mouseReleaseEvent hit i s) = dagnodes s \<and>
         widgets (mouseReleaseEvent hit i s) = widgets s \<and>
         edge_widgets (mouseReleaseEvent hit i s) = edge_widgets s \<and>
         messages (mouseReleaseEvent hit i s) = messages s"
  using assms
  by (auto simp: mouseReleaseEvent_def no_terminal_def topmost_def removeItem_def Let_def
      split: list.splits option.splits prod.splits)

lemma mouseMoveEvent_fields:
  "dagnodes (mouseMoveEvent ev s) = dagnodes s" "widgets (mouseMoveEvent ev s) = widgets s"
  "edge_widgets (mouseMoveEvent ev s) = edge_widgets s"
  "scene_items (mouseMoveEvent ev s) = scene_items s"
  by (simp_all add: mouseMoveEvent_def split: option.splits)

lemma fold_mouseMoveEvent_fields:
  "dagnodes (fold mouseMoveEvent evs s) = dagnodes s \<and> widgets (fold mouseMoveEvent evs s) = widgets s \<and>
   edge_widgets (fold mouseMoveEvent evs s) = edge_widgets s"
  by (induction evs arbitrary: s) (simp_all add: mouseMoveEvent_fields)

lemma press_output_fields:
  "dagnodes (press_output ev r s) = dagnodes s" "widgets (press_output ev r s) = widgets s"
  "edge_widgets (press_output ev r s) = edge_widgets s"
  by (simp_all add: press_output_def new_line_def addItem_def)

text \<open>
  What the input branch of the press handler does to a terminal with exactly one
  attached edge that the graph holds.
\<close>

lemma press_input_detaches:
  assumes "isInputConnection (widgets s r)" and "connections (widgets s r) = [e]" and "in_graph e s"
  shows "dagnodes (press_input ev r s) = (dagnodes s)(e := None)"
    and "widgets (press_input ev r s)
           = unregister e (myEndItem (edge_widgets s e))
               (unregister e (myStartItem (edge_widgets s e)) (unregister e r (widgets s)))"
    and "line (press_input ev r s)
           = Some \<lparr>lid = fresh s, p1 = center (widgets s (myStartItem (edge_widgets s e))), p2 = scenePos ev\<rparr>"
    and "scene_items (press_input ev r s) = scene_items s @ [LineItem (fresh s)]"
    and "edge_widgets (press_input ev r s) = edge_widgets s"
  using assms
  by (simp_all add: press_input_def disconnect_terminal_def removeEdge_def in_graph_def new_line_def
      addItem_def getLine_def unregister_def Let_def fun_eq_iff)

lemma unregister_connections:
  "e \<notin> set (connections (unregister e a w a))"
  "e \<notin> set (connections (w x)) \<Longrightarrow> e \<notin> set (connections (unregister e a w x))"
  by (simp_all add: unregister_def)

lemma unregister_center: "center (unregister e a w x) = center (w x)"
  by (simp add: unregister_def)

lemma fold_mouseMoveEvent_line:
  "line s = Some l \<Longrightarrow> \<exists>q. line (fold mouseMoveEvent evs s) = Some (l\<lparr>p2 := q\<rparr>)"
proof (induction evs arbitrary: s l)
  case Nil
  then have "line (fold mouseMoveEvent [] s) = Some (l\<lparr>p2 := p2 l\<rparr>)" by simp
  then show ?case by blast
next
  case (Cons ev evs)
  have "line (mouseMoveEvent ev s) = Some (l\<lparr>p2 := scenePos ev\<rparr>)"
    using Cons.prems by (simp add: mouseMoveEvent_def)
  from Cons.IH [OF this] show ?case by auto
qed

section \<open>Properties of the registry\<close>

lemma add_edge_widget_missing:
  "getNode src_id s = None \<or> getNode dest_id s = None \<Longrightarrow>
   add_edge_widget nw d src_id dest_id src_attr dest_attr s = (Inl AttributeError, s)"
  by (auto simp: add_edge_widget_def split: option.splits)

lemma add_one_missing:
  assumes "dagnodes s i = Some (DagEdge di n src_id dest_id src_attr dest_attr)"
    and "i \<notin> fst ` set (scenenodes s)"
    and "getNode src_id s = None \<or> getNode dest_id s = None"
  shows "add_one nw i s = (Inl AttributeError, s)"
  using assms by (simp add: add_one_def add_edge_widget_missing)

lemma addNodes_loop_append:
  "addNodes_loop nw (xs @ ys) acc s =
     (case addNodes_loop nw xs acc s of
        (Inl e, s1) \<Rightarrow> (Inl e, s1)
      | (Inr acc1, s1) \<Rightarrow> addNodes_loop nw ys acc1 s1)"
proof (induction xs arbitrary: acc s)
  case Nil
  show ?case by simp
next
  case (Cons x xs)
  show ?case
    by (cases "add_one nw x s") (auto simp: Cons.IH split: sum.splits)
qed

text \<open>
  An edge id whose source or destination node widget \<^verbatim>\<open>getNode\<close> does not find, by
  id or by name, when its turn comes: the call raises \<^verbatim>\<open>AttributeError\<close>. The state
  is the one the ids before it left: nothing is registered for the edge, and the ids
  after it are not looked at.
\<close>

lemma addNodes_missing_endpoint:
  assumes "addNodes nw pre s0 = (Inr ws, s)"
    and "dagnodes s i = Some (DagEdge di n src_id dest_id src_attr dest_attr)"
    and "i \<notin> fst ` set (scenenodes s)"
    and "getNode src_id s = None \<or> getNode dest_id s = None"
  shows "addNodes nw (pre @ i # ids) s0 = (Inl AttributeError, s)"
  using assms(1) add_one_missing [OF assms(2-4), of nw]
  by (simp add: addNodes_def addNodes_loop_append)

section \<open>Properties of LineClass: the claims\<close>




text \<open>
  C10. Registration of a line on its terminals is not idempotent. For a line between
  two distinct connection widgets, every call of \<^verbatim>\<open>updatePosition\<close> appends the line
  to the \<^verbatim>\<open>connectedLine\<close> list of each endpoint, so \<open>n\<close> calls raise the number of
  its occurrences in each list by \<open>n\<close> (to \<open>n\<close> for a line registered nowhere
  before); one \<^verbatim>\<open>deleteNode\<close> then succeeds and takes exactly one occurrence out of
  each list.
\<close>

theorem C10_registration_not_idempotent:
  assumes "myStartItem l \<noteq> myEndItem l"
    and "LineItem self \<in> set (scene_items s)"
    and "0 < n"
  shows "registered self (myStartItem l) ((updatePosition self l ^^ n) s) = registered self (myStartItem l) s + n \<and>
         registered self (myEndItem l) ((updatePosition self l ^^ n) s) = registered self (myEndItem l) s + n \<and>
         fst (deleteNode self l ((updatePosition self l ^^ n) s)) = None \<and>
         registered self (myStartItem l) (snd (deleteNode self l ((updatePosition self l ^^ n) s)))
           = registered self (myStartItem l) s + n - 1 \<and>
         registered self (myEndItem l) (snd (deleteNode self l ((updatePosition self l ^^ n) s)))
           = registered self (myEndItem l) s + n - 1"
proof -
  let ?t = "(updatePosition self l ^^ n) s"
  have counts:
    "registered self (myStartItem l) ?t = registered self (myStartItem l) s + n"
    "registered self (myEndItem l) ?t = registered self (myEndItem l) s + n"
    using registered_funpow_updatePosition [OF assms(1)] by simp_all
  have in_scene: "LineItem self \<in> set (scene_items ?t)"
    using assms(2) by (simp add: scene_items_funpow_updatePosition)
  have pos: "0 < registered self (myStartItem l) ?t" "0 < registered self (myEndItem l) ?t"
    using counts assms(3) by simp_all
  from deleteNode_registered [OF assms(1) in_scene pos] counts
  show ?thesis by simp
qed

theorem C10_registration_witness:
  "myStartItem (ex_edge_widgets ''e1'') \<noteq> myEndItem (ex_edge_widgets ''e1'') \<and>
   registered 7 1 (((updatePosition 7 (ex_edge_widgets ''e1'')) ^^ 3) (addItem (LineItem 7) ex_idle)) = 3 \<and>
   registered 7 2 (((updatePosition 7 (ex_edge_widgets ''e1'')) ^^ 3) (addItem (LineItem 7) ex_idle)) = 3 \<and>
   fst (deleteNode 7 (ex_edge_widgets ''e1'')
         (((updatePosition 7 (ex_edge_widgets ''e1'')) ^^ 3) (addItem (LineItem 7) ex_idle))) = None \<and>
   registered 7 1 (snd (deleteNode 7 (ex_edge_widgets ''e1'')
         (((updatePosition 7 (ex_edge_widgets ''e1'')) ^^ 3) (addItem (LineItem 7) ex_idle)))) = 2 \<and>
   registered 7 2 (snd (deleteNode 7 (ex_edge_widgets ''e1'')
         (((updatePosition 7 (ex_edge_widgets ''e1'')) ^^ 3) (addItem (LineItem 7) ex_idle)))) = 2"
proof -
  have a: "myStartItem (ex_edge_widgets ''e1'') \<noteq> myEndItem (ex_edge_widgets ''e1'')"
    by (simp add: ex_edge_widgets_def)
  have b: "LineItem 7 \<in> set (scene_items (addItem (LineItem 7) ex_idle))"
    by (simp add: addItem_def)
  have c: "registered 7 1 (addItem (LineItem 7) ex_idle) = 0" "registered 7 2 (addItem (LineItem 7) ex_idle) = 0"
    by (simp_all add: registered_def addItem_def ex_idle_def ex_widgets_def terminal_def)
  have d: "myStartItem (ex_edge_widgets ''e1'') = 1" "myEndItem (ex_edge_widgets ''e1'') = 2"
    by (simp_all add: ex_edge_widgets_def)
  from C10_registration_not_idempotent [OF a b, of 3] c d a
  show ?thesis by simp
qed

section \<open>Validation: the claims\<close>

lemma validateConnection_idle: "line s = None \<Longrightarrow> validateConnection src dest force s = (True, s)"
  by (simp add: validateConnection_def)

lemma validateConnection_invalid_order:
  "line s \<noteq> None \<Longrightarrow> isInputConnection (widgets s a) \<or> isOutputConnection (widgets s b) \<Longrightarrow>
   validateConnection (ConnectionW a) (ConnectionW b) force s = (False, emit ErrInvalidOrder s)"
  by (auto simp: validateConnection_def)

lemma validateConnection_same_node:
  "line s \<noteq> None \<Longrightarrow> \<not> isInputConnection (widgets s a) \<Longrightarrow> \<not> isOutputConnection (widgets s b) \<Longrightarrow>
   dagnode_id (widgets s a) = dagnode_id (widgets s b) \<Longrightarrow>
   validateConnection (ConnectionW a) (ConnectionW b) force s = (False, emit ErrSameNode s)"
  by (auto simp: validateConnection_def)

lemma validateConnection_passed:
  "line s \<noteq> None \<Longrightarrow> \<not> isInputConnection (widgets s a) \<Longrightarrow> \<not> isOutputConnection (widgets s b) \<Longrightarrow>
   dagnode_id (widgets s a) \<noteq> dagnode_id (widgets s b) \<Longrightarrow>
   validateConnection (ConnectionW a) (ConnectionW b) force s =
     (if is_connectable (widgets s b) = Some False
      then if force then (True, force_removal (connections (widgets s b)) s)
           else (False, emit (WarnNotConnectable (conn_name (widgets s b))) s)
      else (True, s))"
  by (auto simp: validateConnection_def split: option.splits bool.splits)

text \<open>The verdict as a function of what the call reads.\<close>

lemma validateConnection_verdict:
  "fst (validateConnection (ConnectionW a) (ConnectionW b) force s) =
     (line s = None \<or>
      (\<not> isInputConnection (widgets s a) \<and> \<not> isOutputConnection (widgets s b) \<and>
       dagnode_id (widgets s a) \<noteq> dagnode_id (widgets s b) \<and>
       (is_connectable (widgets s b) = Some False \<longrightarrow> force)))"
  by (auto simp: validateConnection_def split: option.splits bool.splits)

lemma validateConnection_keeps_line_and_terminals:
  "line (snd (validateConnection src dest force s)) = line s \<and>
   same_terminal (widgets (snd (validateConnection src dest force s)) r) (widgets s r)"
  by (auto simp: validateConnection_def emit_fields same_terminal_refl force_removal_fields
      force_removal_same_terminal split: option.splits bool.splits)

lemma validateConnection_wrong_type:
  "line s \<noteq> None \<Longrightarrow> the_connection src = None \<or> the_connection dest = None \<Longrightarrow>
   validateConnection src dest force s = (False, emit ErrWrongType s)"
  by (auto simp: validateConnection_def split: option.splits)




text \<open>
  C3, as the specification states it, fails. The destination (widget 3, the input of
  node C) is not connectable and carries edge e2. While a line is being drawn, a
  forced call whose source is an input (widget 2) rejects and leaves e2 in the
  graph. While no line is being drawn, an unforced call from the output of node E
  approves.
\<close>

theorem C3_as_stated_counterexample:
  "is_connectable (widgets ex_drawing 3) = Some False \<and>
   connections (widgets ex_drawing 3) = [''e2''] \<and>
   \<not> fst (validateConnection (ConnectionW 2) (ConnectionW 3) True ex_drawing) \<and>
   in_graph ''e2'' (snd (validateConnection (ConnectionW 2) (ConnectionW 3) True ex_drawing)) \<and>
   is_connectable (widgets ex_idle 3) = Some False \<and>
   connections (widgets ex_idle 3) = [''e2''] \<and>
   validateConnection (ConnectionW 5) (ConnectionW 3) False ex_idle = (True, ex_idle)"
  by (simp add: validateConnection_def in_graph_def emit_def ex_drawing_def ex_idle_def
      ex_widgets_def ex_dagnodes_def terminal_def)

text \<open>
  C3, amended. For every validation call made while a line is being drawn, whose pair
  passes the direction check and the same-node check, and whose destination is not
  connectable and has one or more attached edges: with \<open>force\<close> false the call
  rejects with the not-connectable warning and changes nothing else, so every
  attached edge remains in the graph; with \<open>force\<close> true the call approves, the
  graph afterwards holds none of the edges that were attached to the destination and
  every other entry of the graph is as before, and a removal that failed is logged.
\<close>

theorem C3_forced_eviction:
  assumes "line s \<noteq> None"
    and "\<not> isInputConnection (widgets s a)"
    and "\<not> isOutputConnection (widgets s b)"
    and "dagnode_id (widgets s a) \<noteq> dagnode_id (widgets s b)"
    and "is_connectable (widgets s b) = Some False"
    and "connections (widgets s b) \<noteq> []"
  shows "validateConnection (ConnectionW a) (ConnectionW b) False s
           = (False, emit (WarnNotConnectable (conn_name (widgets s b))) s) \<and>
         dagnodes (snd (validateConnection (ConnectionW a) (ConnectionW b) False s)) = dagnodes s \<and>
         widgets (snd (validateConnection (ConnectionW a) (ConnectionW b) False s)) = widgets s \<and>
         validateConnection (ConnectionW a) (ConnectionW b) True s
           = (True, force_removal (connections (widgets s b)) s) \<and>
         (\<forall>e \<in> set (connections (widgets s b)).
            \<not> in_graph e (snd (validateConnection (ConnectionW a) (ConnectionW b) True s)) \<and>
            (\<not> in_graph e s \<longrightarrow>
               WarnRemovalFailed e \<in> set (messages (snd (validateConnection (ConnectionW a) (ConnectionW b) True s))))) \<and>
         (\<forall>e. e \<notin> set (connections (widgets s b)) \<longrightarrow>
            dagnodes (snd (validateConnection (ConnectionW a) (ConnectionW b) True s)) e = dagnodes s e)"
proof -
  have rej: "validateConnection (ConnectionW a) (ConnectionW b) False s
           = (False, emit (WarnNotConnectable (conn_name (widgets s b))) s)"
    using assms by (simp add: validateConnection_passed)
  have acc: "validateConnection (ConnectionW a) (ConnectionW b) True s
           = (True, force_removal (connections (widgets s b)) s)"
    using assms by (simp add: validateConnection_passed)
  show ?thesis
    by (simp add: rej acc emit_fields force_removal_not_in_graph force_removal_failure_logged
        force_removal_dagnodes)
qed

theorem C3_forced_eviction_witness:
  "line ex_drawing \<noteq> None \<and>
   is_connectable (widgets ex_drawing 3) = Some False \<and>
   connections (widgets ex_drawing 3) = [''e2''] \<and>
   in_graph ''e2'' ex_drawing \<and>
   validateConnection (ConnectionW 5) (ConnectionW 3) False ex_drawing
     = (False, emit (WarnNotConnectable ''in'') ex_drawing) \<and>
   fst (validateConnection (ConnectionW 5) (ConnectionW 3) True ex_drawing) \<and>
   \<not> in_graph ''e2'' (snd (validateConnection (ConnectionW 5) (ConnectionW 3) True ex_drawing)) \<and>
   in_graph ''e1'' (snd (validateConnection (ConnectionW 5) (ConnectionW 3) True ex_drawing))"
proof -
  have h: "line ex_drawing \<noteq> None"
    "\<not> isInputConnection (widgets ex_drawing 5)"
    "\<not> isOutputConnection (widgets ex_drawing 3)"
    "dagnode_id (widgets ex_drawing 5) \<noteq> dagnode_id (widgets ex_drawing 3)"
    "is_connectable (widgets ex_drawing 3) = Some False"
    "connections (widgets ex_drawing 3) \<noteq> []"
    by (simp_all add: ex_drawing_def ex_idle_def ex_widgets_def terminal_def)
  have c: "connections (widgets ex_drawing 3) = [''e2'']" "conn_name (widgets ex_drawing 3) = ''in''"
    by (simp_all add: ex_drawing_def ex_idle_def ex_widgets_def terminal_def)
  have g: "in_graph ''e2'' ex_drawing" "dagnodes ex_drawing ''e1'' = ex_dagnodes ''e1''"
    "is_edge (ex_dagnodes ''e1'')"
    by (simp_all add: in_graph_def ex_drawing_def ex_idle_def ex_dagnodes_def)
  note t = C3_forced_eviction [OF h]
  have r1: "validateConnection (ConnectionW 5) (ConnectionW 3) False ex_drawing
     = (False, emit (WarnNotConnectable ''in'') ex_drawing)"
    using t c(2) by simp
  have r2: "fst (validateConnection (ConnectionW 5) (ConnectionW 3) True ex_drawing)"
    using t by simp
  have "\<forall>e \<in> set (connections (widgets ex_drawing 3)).
          \<not> in_graph e (snd (validateConnection (ConnectionW 5) (ConnectionW 3) True ex_drawing))"
    using t by blast
  then have r3: "\<not> in_graph ''e2'' (snd (validateConnection (ConnectionW 5) (ConnectionW 3) True ex_drawing))"
    using c(1) by simp
  have "\<forall>e. e \<notin> set (connections (widgets ex_drawing 3)) \<longrightarrow>
          dagnodes (snd (validateConnection (ConnectionW 5) (ConnectionW 3) True ex_drawing)) e
            = dagnodes ex_drawing e"
    using t by blast
  then have "dagnodes (snd (validateConnection (ConnectionW 5) (ConnectionW 3) True ex_drawing)) ''e1''
            = dagnodes ex_drawing ''e1''"
    using c(1) by simp
  then have r4: "in_graph ''e1'' (snd (validateConnection (ConnectionW 5) (ConnectionW 3) True ex_drawing))"
    using g by (simp add: in_graph_def)
  from h c g r1 r2 r3 r4 show ?thesis by simp
qed

text \<open>
  For widgets that are each exactly one of input and output, a pair fails the
  direction check of the code exactly when it is not an output with an input.
\<close>

lemma direction_check_exact:
  "isInputConnection c \<noteq> isOutputConnection c \<Longrightarrow> isInputConnection c' \<noteq> isOutputConnection c' \<Longrightarrow>
   (isInputConnection c \<or> isOutputConnection c') = (\<not> (isOutputConnection c \<and> isInputConnection c'))"
  by blast

text \<open>
  C4. A validation call whose pair fails the direction check (as the code makes it:
  the source is an input connection or the destination an output connection) or the
  same-node check evicts nothing: the graph and every widget, with its attached
  edges, are as before the call, whatever \<open>force\<close> is; only the error message is
  added. While a line is being drawn the call rejects, so the two rejections come
  before the eviction.
\<close>

theorem C4_rejections_do_not_evict:
  assumes "isInputConnection (widgets s a) \<or> isOutputConnection (widgets s b) \<or>
           dagnode_id (widgets s a) = dagnode_id (widgets s b)"
  shows "dagnodes (snd (validateConnection (ConnectionW a) (ConnectionW b) force s)) = dagnodes s \<and>
         widgets (snd (validateConnection (ConnectionW a) (ConnectionW b) force s)) = widgets s \<and>
         (snd (validateConnection (ConnectionW a) (ConnectionW b) force s))\<lparr>messages := messages s\<rparr> = s \<and>
         (line s \<noteq> None \<longrightarrow> \<not> fst (validateConnection (ConnectionW a) (ConnectionW b) force s))"
proof (cases "line s")
  case None
  then show ?thesis by (simp add: validateConnection_idle)
next
  case (Some l)
  then have l: "line s \<noteq> None" by simp
  show ?thesis
  proof (cases "isInputConnection (widgets s a) \<or> isOutputConnection (widgets s b)")
    case True
    from validateConnection_invalid_order [OF l True] show ?thesis
      by (simp add: emit_fields emit_messages_reset)
  next
    case False
    with assms have "dagnode_id (widgets s a) = dagnode_id (widgets s b)" by blast
    with False validateConnection_same_node [OF l, of a b force] show ?thesis
      by (simp add: emit_fields emit_messages_reset)
  qed
qed

theorem C4_rejections_do_not_evict_witness:
  "isInputConnection (widgets ex_drawing 2) \<and>
   is_connectable (widgets ex_drawing 3) = Some False \<and>
   dagnodes (snd (validateConnection (ConnectionW 2) (ConnectionW 3) True ex_drawing)) = dagnodes ex_drawing \<and>
   widgets (snd (validateConnection (ConnectionW 2) (ConnectionW 3) True ex_drawing)) = widgets ex_drawing \<and>
   \<not> fst (validateConnection (ConnectionW 2) (ConnectionW 3) True ex_drawing)"
proof -
  have h: "isInputConnection (widgets ex_drawing 2)" "is_connectable (widgets ex_drawing 3) = Some False"
    "line ex_drawing \<noteq> None"
    by (simp_all add: ex_drawing_def ex_idle_def ex_widgets_def terminal_def)
  have "isInputConnection (widgets ex_drawing 2) \<or> isOutputConnection (widgets ex_drawing 3) \<or>
        dagnode_id (widgets ex_drawing 2) = dagnode_id (widgets ex_drawing 3)"
    using h(1) by simp
  from C4_rejections_do_not_evict [OF this, of True] h
  show ?thesis by simp
qed

text \<open>
  C7, as the specification states it, fails: the same arguments (an input as source,
  an output as destination) are rejected while a line is being drawn and approved
  when none is.
\<close>

theorem C7_line_gate_counterexample:
  "\<not> fst (validateConnection (ConnectionW 2) (ConnectionW 1) True ex_drawing) \<and>
   fst (validateConnection (ConnectionW 2) (ConnectionW 1) True (ex_drawing\<lparr>line := None\<rparr>))"
  by (simp add: validateConnection_def ex_drawing_def ex_idle_def ex_widgets_def terminal_def)

text \<open>
  C7, amended. Of the session's state the verdict reads only whether a provisional
  line exists: two calls with the same arguments, in two states that agree on that
  and in which the two widgets have the same direction flags, node and
  \<^verbatim>\<open>is_connectable\<close>, return the same verdict, whatever the graph, the attached
  edges and the line's points are; a call repeated on the state the first call left
  returns the same verdict again. When no line is being drawn every call approves
  and changes nothing.
\<close>

theorem C7_verdict_reads_line_only:
  assumes "(line s = None) = (line s' = None)"
    and "same_terminal (widgets s a) (widgets s' a)"
    and "same_terminal (widgets s b) (widgets s' b)"
  shows "fst (validateConnection (ConnectionW a) (ConnectionW b) force s)
           = fst (validateConnection (ConnectionW a) (ConnectionW b) force s') \<and>
         fst (validateConnection (ConnectionW a) (ConnectionW b) force
                (snd (validateConnection (ConnectionW a) (ConnectionW b) force s)))
           = fst (validateConnection (ConnectionW a) (ConnectionW b) force s) \<and>
         (line s = None \<longrightarrow> validateConnection (ConnectionW a) (ConnectionW b) force s = (True, s))"
proof -
  have eq: "fst (validateConnection (ConnectionW a) (ConnectionW b) force t)
              = fst (validateConnection (ConnectionW a) (ConnectionW b) force t')"
    if "(line t = None) = (line t' = None)" "same_terminal (widgets t a) (widgets t' a)"
      "same_terminal (widgets t b) (widgets t' b)" for t t'
    using that by (simp add: validateConnection_verdict same_terminal_def)
  let ?s1 = "snd (validateConnection (ConnectionW a) (ConnectionW b) force s)"
  have k: "(line ?s1 = None) = (line s = None)" "same_terminal (widgets ?s1 a) (widgets s a)"
    "same_terminal (widgets ?s1 b) (widgets s b)"
    using validateConnection_keeps_line_and_terminals [of "ConnectionW a" "ConnectionW b" force s]
    by simp_all
  from eq [OF assms] eq [OF k] show ?thesis
    by (simp add: validateConnection_idle)
qed

theorem C7_verdict_reads_line_only_witness:
  "line ex_drawing \<noteq> None \<and>
   line (snd (validateConnection (ConnectionW 5) (ConnectionW 3) True ex_drawing)) \<noteq> None \<and>
   fst (validateConnection (ConnectionW 5) (ConnectionW 3) True ex_drawing) \<and>
   fst (validateConnection (ConnectionW 5) (ConnectionW 3) True
          (snd (validateConnection (ConnectionW 5) (ConnectionW 3) True ex_drawing))) \<and>
   validateConnection (ConnectionW 2) (ConnectionW 1) True ex_idle = (True, ex_idle)"
proof -
  have l: "line ex_drawing \<noteq> None" "line ex_idle = None"
    by (simp_all add: ex_drawing_def ex_idle_def)
  have v: "fst (validateConnection (ConnectionW 5) (ConnectionW 3) True ex_drawing)"
    by (simp add: validateConnection_def ex_drawing_def ex_idle_def ex_widgets_def terminal_def)
  have k: "line (snd (validateConnection (ConnectionW 5) (ConnectionW 3) True ex_drawing)) = line ex_drawing"
    by (simp add: validateConnection_keeps_line_and_terminals)
  from C7_verdict_reads_line_only [of ex_drawing ex_drawing 5 3 True]
    C7_verdict_reads_line_only [of ex_idle ex_idle 2 1 True] l v k
  show ?thesis by (simp add: same_terminal_refl)
qed

section \<open>The edge invariant of the session\<close>










lemma force_removal_in_graph: "in_graph e (force_removal es s) \<Longrightarrow> in_graph e s"
  by (simp add: in_graph_def force_removal_dagnodes split: if_splits)



















section \<open>The connection session: the claims\<close>

text \<open>
  C1. The release handler does not always clear the session's line. In
  \<open>ex_drawing\<close> a line runs from the output of node E to the point (70, 0), over the
  body of node B. On release the topmost items at the two ends, the line apart, are
  the connection widget and the node widget, so the handler returns early: the line
  has left the scene, and \<^verbatim>\<open>self.line\<close> still holds it.
\<close>

theorem C1_release_over_node_keeps_line:
  "line ex_drawing = Some \<lparr>lid = 99, p1 = (50, 0), p2 = (70, 0)\<rparr> \<and>
   LineItem 99 \<in> set (scene_items ex_drawing) \<and>
   line (mouseReleaseEvent (ex_hit_line 99 (50, 0) (70, 0)) ''e9'' ex_drawing)
     = Some \<lparr>lid = 99, p1 = (50, 0), p2 = (70, 0)\<rparr> \<and>
   LineItem 99 \<notin> set (scene_items (mouseReleaseEvent (ex_hit_line 99 (50, 0) (70, 0)) ''e9'' ex_drawing))"
  by (simp add: mouseReleaseEvent_def pop_line_def removeItem_def ex_hit_line_def ex_hit_def
      ex_drawing_def ex_idle_def)




text \<open>
  C6. A drawing session started by detaching the one edge of an input terminal,
  continued by any pointer moves, and ended by a release where at one end of the
  line no connection widget is the topmost item (empty space, or another item):
  the release changes neither the graph nor any widget, and the graph afterwards is
  the graph before the press without the detached edge, which is not restored, and
  with no new edge.
\<close>

theorem C6_detached_edge_is_lost:
  assumes "button ev = LeftButton"
    and "itemAt hit (scenePos ev) = Some (ConnectionW r)"
    and "isInputConnection (widgets s r)"
    and "connections (widgets s r) = [e]"
    and "in_graph e s"
    and "line (fold mouseMoveEvent moves (mousePressEvent hit ev s)) = Some l"
    and "no_terminal hit' l (p1 l) \<or> no_terminal hit' l (p2 l)"
  shows "dagnodes (mouseReleaseEvent hit' new_id (fold mouseMoveEvent moves (mousePressEvent hit ev s)))
           = (dagnodes s)(e := None) \<and>
         \<not> in_graph e (mouseReleaseEvent hit' new_id (fold mouseMoveEvent moves (mousePressEvent hit ev s))) \<and>
         dagnodes (mouseReleaseEvent hit' new_id (fold mouseMoveEvent moves (mousePressEvent hit ev s)))
           = dagnodes (fold mouseMoveEvent moves (mousePressEvent hit ev s)) \<and>
         widgets (mouseReleaseEvent hit' new_id (fold mouseMoveEvent moves (mousePressEvent hit ev s)))
           = widgets (fold mouseMoveEvent moves (mousePressEvent hit ev s))"
proof -
  let ?s0 = "press_output ev r s"
  let ?s1 = "mousePressEvent hit ev s"
  let ?s2 = "fold mouseMoveEvent moves ?s1"
  have press: "?s1 = press_input ev r ?s0"
    using assms(1,2) by (simp add: mousePressEvent_def)
  have h: "isInputConnection (widgets ?s0 r)" "connections (widgets ?s0 r) = [e]" "in_graph e ?s0"
    using assms(3-5) by (simp_all add: press_output_fields in_graph_def)
  have g1: "dagnodes ?s1 = (dagnodes s)(e := None)"
    using press_input_detaches(1) [OF h, of ev] press by (simp add: press_output_fields)
  have g2: "dagnodes ?s2 = dagnodes ?s1"
    using fold_mouseMoveEvent_fields [of moves ?s1] by simp
  note rel = mouseReleaseEvent_no_terminal [OF assms(6,7), of new_id]
  show ?thesis
    using rel g1 g2 by (simp add: in_graph_def)
qed

theorem C6_detached_edge_is_lost_witness:
  "in_graph ''e1'' ex_idle \<and>
   line (fold mouseMoveEvent [\<lparr>button = LeftButton, scenePos = (80, 0)\<rparr>]
          (mousePressEvent ex_hit \<lparr>button = LeftButton, scenePos = (20, 0)\<rparr> ex_idle))
     = Some \<lparr>lid = 100, p1 = (10, 0), p2 = (80, 0)\<rparr> \<and>
   no_terminal (ex_hit_line 100 (10, 0) (80, 0)) \<lparr>lid = 100, p1 = (10, 0), p2 = (80, 0)\<rparr> (80, 0) \<and>
   \<not> in_graph ''e1'' (mouseReleaseEvent (ex_hit_line 100 (10, 0) (80, 0)) ''e9''
      (fold mouseMoveEvent [\<lparr>button = LeftButton, scenePos = (80, 0)\<rparr>]
          (mousePressEvent ex_hit \<lparr>button = LeftButton, scenePos = (20, 0)\<rparr> ex_idle))) \<and>
   dagnodes (mouseReleaseEvent (ex_hit_line 100 (10, 0) (80, 0)) ''e9''
      (fold mouseMoveEvent [\<lparr>button = LeftButton, scenePos = (80, 0)\<rparr>]
          (mousePressEvent ex_hit \<lparr>button = LeftButton, scenePos = (20, 0)\<rparr> ex_idle)))
     = (dagnodes ex_idle)(''e1'' := None)"
proof -
  let ?ev = "\<lparr>button = LeftButton, scenePos = (20, 0)\<rparr>"
  let ?mv = "\<lparr>button = LeftButton, scenePos = (80, 0)\<rparr>"
  let ?l = "\<lparr>lid = 100, p1 = (10, 0), p2 = (80, 0)\<rparr>"
  have h: "button ?ev = LeftButton"
    "itemAt ex_hit (scenePos ?ev) = Some (ConnectionW 2)"
    "isInputConnection (widgets ex_idle 2)"
    "connections (widgets ex_idle 2) = [''e1'']"
    "in_graph ''e1'' ex_idle"
    by (simp_all add: itemAt_def in_graph_def ex_hit_def ex_idle_def ex_widgets_def
        ex_dagnodes_def terminal_def)
  have po: "press_output ?ev 2 ex_idle = ex_idle"
    by (simp add: press_output_def ex_idle_def ex_widgets_def terminal_def)
  have pr: "mousePressEvent ex_hit ?ev ex_idle = press_input ?ev 2 ex_idle"
    using h(1,2) po by (simp add: mousePressEvent_def)
  have l1: "line (mousePressEvent ex_hit ?ev ex_idle) = Some \<lparr>lid = 100, p1 = (10, 0), p2 = (20, 0)\<rparr>"
    using press_input_detaches(3) [OF h(3-5), of ?ev] pr
    by (simp add: ex_idle_def ex_edge_widgets_def ex_widgets_def terminal_def)
  have l2: "line (fold mouseMoveEvent [?mv] (mousePressEvent ex_hit ?ev ex_idle)) = Some ?l"
    using l1 by (simp add: mouseMoveEvent_def)
  have n: "no_terminal (ex_hit_line 100 (10, 0) (80, 0)) ?l (80, 0)"
    by (simp add: no_terminal_def topmost_def pop_line_def ex_hit_line_def ex_hit_def)
  then have n': "no_terminal (ex_hit_line 100 (10, 0) (80, 0)) ?l (p1 ?l) \<or>
                 no_terminal (ex_hit_line 100 (10, 0) (80, 0)) ?l (p2 ?l)"
    by simp
  from C6_detached_edge_is_lost [OF h l2 n', of "''e9''"] h(5) l2 n
  show ?thesis by simp
qed

section \<open>The registry: the claims\<close>

text \<open>
  C8. Presenting an edge whose source node widget is not registered does not end in
  a \<open>DanglingReference\<close> error. In \<open>ex_loading\<close> the graph holds the edge e3 from node
  E to node B, and no widget of node E is registered yet, by id or by name. Asked to
  present the edge before the node, \<^verbatim>\<open>addNodes\<close> gets \<^verbatim>\<open>None\<close> from \<^verbatim>\<open>getNode\<close>
  and raises \<^verbatim>\<open>AttributeError\<close> on the method call that follows; the scene is left
  as it was and node E, next in the list, is not presented. Asked for the node
  first, it presents both.
\<close>

theorem C8_unregistered_source_raises_AttributeError:
  "dagnodes ex_loading ''e3'' = Some (DagEdge ''e3'' ''edge3'' ''E'' ''B'' ''out'' ''in'') \<and>
   getNode ''E'' ex_loading = None \<and>
   addNodes ex_node_widgets [''e3'', ''E''] ex_loading = (Inl AttributeError, ex_loading) \<and>
   fst (addNodes ex_node_widgets [''e3'', ''E''] ex_loading) \<noteq> Inl DanglingReference \<and>
   fst (addNodes ex_node_widgets [''E'', ''e3''] ex_loading)
     = Inr [Node (DagNode ''E'' ''nodeE''),
            Edge (DagEdge ''e3'' ''edge3'' ''E'' ''B'' ''out'' ''in'') (Some 5) (Some 2)]"
proof -
  have d: "dagnodes ex_loading ''e3'' = Some (DagEdge ''e3'' ''edge3'' ''E'' ''B'' ''out'' ''in'')"
    by (simp add: ex_loading_def)
  have r: "''e3'' \<notin> fst ` set (scenenodes ex_loading)"
    by (simp add: ex_loading_def)
  have g: "getNode ''E'' ex_loading = None"
    by (simp add: getNode_def ex_loading_def)
  have e: "addNodes ex_node_widgets [] ex_loading = (Inr [], ex_loading)"
    by (simp add: addNodes_def)
  have g': "getNode ''E'' ex_loading = None \<or> getNode ''B'' ex_loading = None"
    using g by simp
  have a: "addNodes ex_node_widgets [''e3'', ''E''] ex_loading = (Inl AttributeError, ex_loading)"
    using addNodes_missing_endpoint [OF e d r g', of "[''E'']"] by simp
  have b: "fst (addNodes ex_node_widgets [''E'', ''e3''] ex_loading)
     = Inr [Node (DagNode ''E'' ''nodeE''),
            Edge (DagEdge ''e3'' ''edge3'' ''E'' ''B'' ''out'' ''in'') (Some 5) (Some 2)]"
    by (simp add: addNodes_def add_one_def add_edge_widget_def getNode_def ex_loading_def
        ex_node_widgets_def ex_getOutputConnection_def ex_getInputConnection_def ex_connect_terminal_def
        addItem_def Let_def)
  from d g a b show ?thesis by simp
qed

end
